theory Spec2Isabelle
  imports Complex_Main "HOL-Library.Log_Nat"
begin

section \<open>Python values used by profile\_generator.py\<close>

text \<open>
  A Python \<^verbatim>\<open>str\<close> is a sequence of Unicode code points. The en-dash of the
  temperature parser is U+2013, which does not fit a HOL \<^typ>\<open>char\<close>, so strings are
  lists of code points; \<open>ustr\<close> turns an ASCII literal into such a list.
\<close>

type_synonym pystr = "nat list"

definition ustr :: "string \<Rightarrow> pystr" where
  "ustr s = map of_char s"

text \<open>
  Python numbers as the program meets them: unbounded \<^verbatim>\<open>int\<close> and \<^verbatim>\<open>float\<close>.
  A finite float is represented by the real number it denotes; the two infinities and
  NaN are separate values, because \<^verbatim>\<open>json.loads\<close> and \<^verbatim>\<open>float\<close> produce them and
  comparisons treat them specially. \<^verbatim>\<open>bool\<close> is a subclass of \<^verbatim>\<open>int\<close> and is
  represented by \<open>PInt 0\<close> and \<open>PInt 1\<close>.
\<close>

datatype pynum = PInt int | PFloat real | PInf | NInf | NaN

datatype error =
    ValueError
  | OverflowError
  | TypeError
  | AttributeError
  | RuntimeError pystr

fun fin :: "pynum \<Rightarrow> real" where
  "fin (PInt i) = real_of_int i"
| "fin (PFloat r) = r"
| "fin PInf = 0"
| "fin NInf = 0"
| "fin NaN = 0"

text \<open>
  \<^verbatim>\<open>a < b\<close>. Python compares an int with a float by their exact mathematical
  values; every comparison with NaN is false.
\<close>

definition py_lt :: "pynum \<Rightarrow> pynum \<Rightarrow> bool" where
  "py_lt a b =
     (case a of
        NaN \<Rightarrow> False
      | PInf \<Rightarrow> False
      | NInf \<Rightarrow> (b \<noteq> NaN \<and> b \<noteq> NInf)
      | _ \<Rightarrow> (case b of
                NaN \<Rightarrow> False
              | NInf \<Rightarrow> False
              | PInf \<Rightarrow> True
              | _ \<Rightarrow> fin a < fin b))"

text \<open>\<^verbatim>\<open>a > b\<close>, \<^verbatim>\<open>a <= b\<close> and \<^verbatim>\<open>a == b\<close>.\<close>

definition py_gt :: "pynum \<Rightarrow> pynum \<Rightarrow> bool" where
  "py_gt a b = py_lt b a"

definition py_le :: "pynum \<Rightarrow> pynum \<Rightarrow> bool" where
  "py_le a b = (a \<noteq> NaN \<and> b \<noteq> NaN \<and> \<not> py_lt b a)"

definition py_eq :: "pynum \<Rightarrow> pynum \<Rightarrow> bool" where
  "py_eq a b = (py_le a b \<and> py_le b a)"

text \<open>
  The builtins \<^verbatim>\<open>min(a, b)\<close> and \<^verbatim>\<open>max(a, b)\<close> with two positional arguments
  keep the first argument unless the second is strictly smaller (strictly greater).
\<close>

definition py_min :: "pynum \<Rightarrow> pynum \<Rightarrow> pynum" where
  "py_min a b = (if py_lt b a then b else a)"

definition py_max :: "pynum \<Rightarrow> pynum \<Rightarrow> pynum" where
  "py_max a b = (if py_gt b a then b else a)"

section \<open>Bounds utility\<close>

text \<open>
  \<^verbatim>\<open>
  def clamp(value: float, min_value: float, max_value: float) -> float:
      return max(min_value, min(value, max_value))
  \<close>
\<close>

definition clamp :: "pynum \<Rightarrow> pynum \<Rightarrow> pynum \<Rightarrow> pynum" where
  "clamp v min_value max_value = py_max min_value (py_min v max_value)"

section \<open>Properties of the bounds utility\<close>

lemma clamp_cases:
  "clamp v lo hi = lo \<or> clamp v lo hi = v \<or> clamp v lo hi = hi"
  by (simp add: clamp_def py_max_def py_min_def)

text \<open>
  Claim C9. For every value \<open>v\<close> (NaN and the infinities included) and bounds with
  \<open>lo \<le> hi\<close>, the result of \<open>clamp\<close> lies between the bounds, and clamping the
  result again with the same bounds returns the same value, both as the identical
  Python value and under Python's \<^verbatim>\<open>==\<close>.
\<close>

theorem clamp_bounds_idempotent:
  assumes "py_le lo hi"
  shows "py_le lo (clamp v lo hi) \<and> py_le (clamp v lo hi) hi
       \<and> clamp (clamp v lo hi) lo hi = clamp v lo hi
       \<and> py_eq (clamp (clamp v lo hi) lo hi) (clamp v lo hi)"
  using assms
  by (cases lo; cases hi; cases v)
     (simp_all add: clamp_def py_max_def py_min_def py_gt_def py_le_def py_eq_def py_lt_def)

theorem clamp_bounds_idempotent_witness:
  "py_le (PInt 0) (PInt 100)
   \<and> py_le (PInt 0) (clamp (PFloat 250.5) (PInt 0) (PInt 100))
   \<and> py_le (clamp (PFloat 250.5) (PInt 0) (PInt 100)) (PInt 100)
   \<and> clamp (clamp (PFloat 250.5) (PInt 0) (PInt 100)) (PInt 0) (PInt 100)
       = clamp (PFloat 250.5) (PInt 0) (PInt 100)
   \<and> py_eq (clamp (clamp (PFloat 250.5) (PInt 0) (PInt 100)) (PInt 0) (PInt 100))
        (clamp (PFloat 250.5) (PInt 0) (PInt 100))"
proof -
  have h: "py_le (PInt 0) (PInt 100)"
    by (simp add: py_le_def py_lt_def)
  show ?thesis
    using h clamp_bounds_idempotent [OF h, of "PFloat 250.5"] by blast
qed

text \<open>
  Claim C10. When the lower bound is strictly greater than the upper bound,
  \<open>clamp\<close> returns the lower bound whatever the value is.
\<close>

theorem clamp_inverted_bounds:
  assumes "py_gt lo hi"
  shows "clamp v lo hi = lo"
  using assms
  by (cases lo; cases hi; cases v)
     (simp_all add: clamp_def py_max_def py_min_def py_gt_def py_lt_def)

theorem clamp_inverted_bounds_witness:
  "py_gt (PInt 10) (PInt 0) \<and> clamp (PInt 5) (PInt 10) (PInt 0) = PInt 10"
proof -
  have h: "py_gt (PInt 10) (PInt 0)"
    by (simp add: py_gt_def py_lt_def)
  show ?thesis
    using h clamp_inverted_bounds [OF h, of "PInt 5"] by simp
qed

end
